theory Spec2Isabelle
  imports Main
begin

section \<open>The looper engine of looper\_v0.4.py and looper\_v0.6.py\<close>

text \<open>
  The two versions of the script agree, statement for statement, on the functions modelled
  here: \<open>audio_callback\<close>, \<open>update_indicator\<close>, \<open>toggle_record\<close>, \<open>reset_loop\<close>,
  \<open>toggle_playback\<close>, \<open>toggle_monitor\<close> and \<open>record_for_duration\<close>. The module's global
  variables become the fields of one record that every function takes and returns.

  \<^item> \<open>CHANNELS = 1\<close>, so an array of shape \<open>(n, 1)\<close> is a list of \<open>n\<close> samples. The sample type
    is a parameter \<open>'a\<close> with a zero (for \<open>outdata.fill(0)\<close>) and an addition (for
    \<open>chunk + indata\<close>); float32 rounding is not modelled.
  \<^item> \<open>print\<close> appends a message to the field \<open>console\<close>; the messages are a datatype, one
    constructor for each \<open>print\<close> of the modelled functions.
  \<^item> \<open>update_indicator\<close> sets the field \<open>indicator\<close> (the fill colour of the canvas oval).
  \<^item> \<open>threading.Timer(sec, toggle_record).start()\<close> appends the delay to the field \<open>timers\<close>,
    the list of timers started and not yet fired; a timer firing is the function
    \<open>timer_fires\<close>, which removes it and calls \<open>toggle_record\<close>.
  \<^item> Each function runs as one atomic step: threads interleave between calls only.
\<close>

subsection \<open>Constants and state\<close>

definition SAMPLE_RATE :: nat where
  "SAMPLE_RATE = 44100"

definition CHANNELS :: nat where
  "CHANNELS = 1"

datatype colour = Red | Grey

datatype message =
    DriverStatus string  \<comment> \<open>\<open>print(status, flush=True)\<close>\<close>
  | RecordingStarted  \<comment> \<open>"[Looper] Enregistrement demarre"\<close>
  | RecordingStopped nat  \<comment> \<open>"[Looper] Enr. arrete, duree: ..." of a loop of that many frames\<close>
  | NoDataRecorded  \<comment> \<open>"[Looper] Aucune donnee enregistree"\<close>
  | LoopReset  \<comment> \<open>"[Looper] Boucle reinitialisee"\<close>
  | PlaybackResumed  \<comment> \<open>"[Looper] Playback repris"\<close>
  | PlaybackPaused  \<comment> \<open>"[Looper] Playback en pause"\<close>
  | MonitorOn  \<comment> \<open>"[Looper] Retour voix active"\<close>
  | MonitorOff  \<comment> \<open>"[Looper] Retour voix desactive"\<close>
  | TimedInvalidDuration  \<comment> \<open>"[TimedRec] Duree invalide"\<close>
  | TimedAlreadyRecording  \<comment> \<open>"[TimedRec] Deja enregistrement"\<close>
  | TimedStarted int  \<comment> \<open>"[TimedRec] Enregistrement pour \{ms\} ms demarre"\<close>

text \<open>
  What stops a call before its last statement: the three exceptions the modelled
  statements can raise, and a \<open>put\<close> that waits for room in a full queue.
\<close>

datatype fault = ValueError | ZeroDivisionError | OverflowError | WouldBlock

record 'a looper =
  loop_buffer :: "'a list"
  record_queue :: "'a list list"
  monitor_queue :: "'a list list"
  is_recording :: bool
  is_playing :: bool
  monitor_enabled :: bool
  playback_index :: nat
  indicator :: colour
  console :: "message list"
  timers :: "int list"

text \<open>The module's initial values; the oval is created with \<open>fill="grey"\<close>.\<close>

definition initial :: "'a looper" where
  "initial = \<lparr>loop_buffer = [], record_queue = [], monitor_queue = [],
     is_recording = False, is_playing = False, monitor_enabled = False,
     playback_index = 0, indicator = Grey, console = [], timers = []\<rparr>"

definition py_print :: "message \<Rightarrow> 'a looper \<Rightarrow> 'a looper" where
  "py_print m s = s\<lparr>console := console s @ [m]\<rparr>"

subsection \<open>queue.Queue\<close>

text \<open>
  Both queues are built by \<open>queue.Queue()\<close>, with the default \<open>maxsize=0\<close>. The library's
  \<open>full()\<close> is \<open>0 < maxsize <= qsize()\<close>, and \<open>put\<close> (blocking by default) waits while the
  queue is full and then appends. A \<open>put\<close> that would wait is the value \<open>None\<close>.
\<close>

definition queue_maxsize :: nat where
  "queue_maxsize = 0"

definition queue_full :: "'b list \<Rightarrow> bool" where
  "queue_full q = (0 < queue_maxsize \<and> queue_maxsize \<le> length q)"

definition queue_put :: "'b list \<Rightarrow> 'b \<Rightarrow> 'b list option" where
  "queue_put q x = (if queue_full q then None else Some (q @ [x]))"

text \<open>
  \<open>while not record_queue.empty(): frames.append(record_queue.get())\<close>: the queue and the
  list collected so far, until the queue is empty.
\<close>

fun drain :: "'b list \<Rightarrow> 'b list \<Rightarrow> 'b list \<times> 'b list" where
  "drain [] frames = ([], frames)"
| "drain (x # q) frames = drain q (frames @ [x])"

text \<open>\<open>while not record_queue.empty(): record_queue.get()\<close>: the queue that is left.\<close>

fun discard_all :: "'b list \<Rightarrow> 'b list" where
  "discard_all [] = []"
| "discard_all (x # q) = discard_all q"

subsection \<open>numpy on arrays of shape (n, 1)\<close>

text \<open>\<open>a.size\<close> is the product of the shape.\<close>

definition np_size :: "'a list \<Rightarrow> nat" where
  "np_size a = length a * CHANNELS"

text \<open>
  \<open>a[i:j]\<close> for indices that are not negative: both ends are clamped to the length, and the
  slice is empty when \<open>j <= i\<close>. No slice raises.
\<close>

definition py_slice :: "'a list \<Rightarrow> nat \<Rightarrow> nat \<Rightarrow> 'a list" where
  "py_slice a i j = drop i (take j a)"

text \<open>
  \<open>outdata[:] = src\<close>, where \<open>outdata\<close> has \<open>frames\<close> rows: the rows of \<open>src\<close> when it has as
  many, its one row repeated when it has one (broadcasting), ValueError otherwise.
\<close>

definition np_assign :: "nat \<Rightarrow> 'a list \<Rightarrow> fault + 'a list" where
  "np_assign frames src =
     (if length src = frames then Inr src
      else if length src = 1 then Inr (replicate frames (hd src))
      else Inl ValueError)"

text \<open>\<open>a + b\<close>: elementwise on equal lengths, a single row broadcast, ValueError otherwise.\<close>

definition np_add :: "'a::plus list \<Rightarrow> 'a list \<Rightarrow> fault + 'a list" where
  "np_add a b =
     (if length a = length b then Inr (map2 (+) a b)
      else if length a = 1 then Inr (map (\<lambda>y. hd a + y) b)
      else if length b = 1 then Inr (map (\<lambda>x. x + hd b) a)
      else Inl ValueError)"

text \<open>\<open>a % b\<close> on integers that are not negative.\<close>

definition py_mod :: "nat \<Rightarrow> nat \<Rightarrow> fault + nat" where
  "py_mod a b = (if b = 0 then Inl ZeroDivisionError else Inr (a mod b))"

subsection \<open>The audio callback\<close>

text \<open>
  \<open>if monitor_enabled: monitor_queue.put(block)\<close>, after \<open>outdata\<close> has been written with
  \<open>out\<close>: the result of the call and the globals it leaves.
\<close>

definition monitor_put :: "'a list \<Rightarrow> 'a list \<Rightarrow> 'a looper \<Rightarrow> (fault + 'a list) \<times> 'a looper" where
  "monitor_put out block s =
     (case queue_put (monitor_queue s) block of
        None \<Rightarrow> (Inl WouldBlock, s)
      | Some q \<Rightarrow> (Inr out, s\<lparr>monitor_queue := q\<rparr>))"

text \<open>
  \<open>audio_callback(indata, outdata, frames, time, status)\<close>. \<open>status\<close> is the text of the
  driver's flags, empty when none is set (\<open>if status: print(status, flush=True)\<close> is
  \<open>report_status\<close>); \<open>time\<close> is not used. The result is the contents of
  \<open>outdata\<close> on return, or the fault that ended the call, and the globals as the call leaves
  them (the cursor is stored before \<open>outdata\<close> is written).
\<close>

definition report_status :: "string \<Rightarrow> 'a looper \<Rightarrow> 'a looper" where
  "report_status status s = (if status \<noteq> [] then py_print (DriverStatus status) s else s)"

definition audio_callback ::
    "'a::{zero,plus} list \<Rightarrow> nat \<Rightarrow> string \<Rightarrow> 'a looper \<Rightarrow> (fault + 'a list) \<times> 'a looper" where
  "audio_callback indata frames status s0 =
     (let s = report_status status s0 in
      if is_recording s then
        (case queue_put (record_queue s) indata of
           None \<Rightarrow> (Inl WouldBlock, s)
         | Some q \<Rightarrow> (Inr (replicate frames 0), s\<lparr>record_queue := q\<rparr>))
      else if is_playing s \<and> np_size (loop_buffer s) > 0 then
        (let len = length (loop_buffer s);
             endi = playback_index s + frames;
             chunk = (if endi \<le> len then py_slice (loop_buffer s) (playback_index s) endi
                      else py_slice (loop_buffer s) (playback_index s) len
                           @ py_slice (loop_buffer s) 0 (endi - len))
         in case py_mod endi len of
              Inl e \<Rightarrow> (Inl e, s)
            | Inr i \<Rightarrow>
                (let s1 = s\<lparr>playback_index := i\<rparr> in
                 case np_assign frames chunk of
                   Inl e \<Rightarrow> (Inl e, s1)
                 | Inr out \<Rightarrow>
                     if monitor_enabled s1 then
                       (case np_add chunk indata of
                          Inl e \<Rightarrow> (Inl e, s1)
                        | Inr mix \<Rightarrow> monitor_put out mix s1)
                     else (Inr out, s1)))
      else
        (case np_assign frames indata of
           Inl e \<Rightarrow> (Inl e, s)
         | Inr out \<Rightarrow>
             if monitor_enabled s then monitor_put out indata s
             else (Inr out, s)))"

subsection \<open>The control operations\<close>

definition update_indicator :: "'a looper \<Rightarrow> 'a looper" where
  "update_indicator s = s\<lparr>indicator := (if is_recording s then Red else Grey)\<rparr>"

text \<open>\<open>np.vstack(frames)\<close> of a list that is not empty is the concatenation of its blocks.\<close>

definition toggle_record :: "'a looper \<Rightarrow> 'a looper" where
  "toggle_record s =
     (if \<not> is_recording s then
        py_print RecordingStarted
          (update_indicator (s\<lparr>is_recording := True, is_playing := False\<rparr>))
      else
        (let s1 = s\<lparr>is_recording := False\<rparr> in
         case drain (record_queue s1) [] of
           (q, frames) \<Rightarrow>
             (let s2 = s1\<lparr>record_queue := q\<rparr> in
              if frames \<noteq> [] then
                (let s3 = s2\<lparr>loop_buffer := concat frames\<rparr>;
                     s4 = s3\<lparr>playback_index := 0, is_playing := True\<rparr>
                 in update_indicator
                      (py_print (RecordingStopped (length (loop_buffer s4))) s4))
              else update_indicator (py_print NoDataRecorded s2))))"

definition reset_loop :: "'a looper \<Rightarrow> 'a looper" where
  "reset_loop s =
     (let s1 = s\<lparr>loop_buffer := []\<rparr>;
          s2 = s1\<lparr>is_recording := False\<rparr>;
          s3 = s2\<lparr>record_queue := discard_all (record_queue s2)\<rparr>;
          s4 = s3\<lparr>is_playing := False, playback_index := 0\<rparr>
      in py_print LoopReset (update_indicator s4))"

definition toggle_playback :: "'a looper \<Rightarrow> 'a looper" where
  "toggle_playback s =
     (let s1 = s\<lparr>is_playing := \<not> is_playing s\<rparr>
      in py_print (if is_playing s1 then PlaybackResumed else PlaybackPaused) s1)"

definition toggle_monitor :: "'a looper \<Rightarrow> 'a looper" where
  "toggle_monitor s =
     (let s1 = s\<lparr>monitor_enabled := \<not> monitor_enabled s\<rparr>
      in py_print (if monitor_enabled s1 then MonitorOn else MonitorOff) s1)"

text \<open>
  \<open>ms / 1000.0\<close> converts the integer to a double, rounding to nearest (ties to even),
  and raises OverflowError ("int too large to convert to float") when the rounded value
  is beyond the largest double \<open>2^1024 - 2^971\<close>: that is, from the midpoint
  \<open>2^1024 - 2^970\<close> on, in either sign.
\<close>

definition float_overflows :: "int \<Rightarrow> bool" where
  "float_overflows n = (2 ^ 1024 - 2 ^ 970 \<le> \<bar>n\<bar>)"

text \<open>
  \<open>record_for_duration()\<close>. The argument is \<open>int(duration_var.get())\<close>: \<open>None\<close> when that
  raises, which the \<open>try\<close> catches. \<open>sec = ms / 1000.0\<close> comes next, outside the \<open>try\<close> and
  before the test of \<open>is_recording\<close>: when it raises, the call ends there with the globals
  untouched and nothing printed. The timer is started with \<open>sec\<close> seconds; the model
  keeps \<open>ms\<close>.
\<close>

definition record_for_duration :: "int option \<Rightarrow> 'a looper \<Rightarrow> fault + 'a looper" where
  "record_for_duration duration s =
     (case duration of
        None \<Rightarrow> Inr (py_print TimedInvalidDuration s)
      | Some ms \<Rightarrow>
          if float_overflows ms then Inl OverflowError
          else if is_recording s then Inr (py_print TimedAlreadyRecording s)
          else
            (let s1 = s\<lparr>record_queue := discard_all (record_queue s)\<rparr>;
                 s2 = s1\<lparr>playback_index := 0, is_recording := True, is_playing := False\<rparr>;
                 s3 = py_print (TimedStarted ms) (update_indicator s2)
             in Inr (s3\<lparr>timers := timers s3 @ [ms]\<rparr>)))"

text \<open>
  The \<open>k\<close>-th pending timer fires: it leaves the list and calls \<open>toggle_record\<close>, the
  function it was started with. Nothing happens when there is no such timer.
\<close>

definition timer_fires :: "nat \<Rightarrow> 'a looper \<Rightarrow> 'a looper" where
  "timer_fires k s =
     (if k < length (timers s)
      then toggle_record (s\<lparr>timers := take k (timers s) @ drop (Suc k) (timers s)\<rparr>)
      else s)"

subsection \<open>Runs\<close>

text \<open>
  What can happen to the engine: the five control operations (buttons and hotkeys), a
  timer firing, and the driver calling the callback with a block. A call that ends by a
  fault leaves the globals as they were at that point.
\<close>

datatype 'a event =
    ToggleRecord
  | ResetLoop
  | TogglePlayback
  | ToggleMonitor
  | RecordForDuration "int option"
  | TimerFires nat
  | AudioBlock "'a list" nat string

fun step :: "'a::{zero,plus} event \<Rightarrow> 'a looper \<Rightarrow> 'a looper" where
  "step ToggleRecord s = toggle_record s"
| "step ResetLoop s = reset_loop s"
| "step TogglePlayback s = toggle_playback s"
| "step ToggleMonitor s = toggle_monitor s"
| "step (RecordForDuration d) s =
     (case record_for_duration d s of Inl e \<Rightarrow> s | Inr s' \<Rightarrow> s')"
| "step (TimerFires k) s = timer_fires k s"
| "step (AudioBlock indata frames status) s = snd (audio_callback indata frames status s)"

fun run :: "'a::{zero,plus} event list \<Rightarrow> 'a looper \<Rightarrow> 'a looper" where
  "run [] s = s"
| "run (e # es) s = run es (step e s)"

subsection \<open>Notions used by the statements\<close>

text \<open>
  The chunk the playback branch of \<open>audio_callback\<close> builds from the buffer, the cursor
  and the block size, as the source writes it (\<open>end = playback_index + frames\<close>).
\<close>

definition wrap_read :: "'a list \<Rightarrow> nat \<Rightarrow> nat \<Rightarrow> 'a list" where
  "wrap_read buf c n =
     (if c + n \<le> length buf then py_slice buf c (c + n)
      else py_slice buf c (length buf) @ py_slice buf 0 (c + n - length buf))"

text \<open>The events that are calls of the audio callback.\<close>

fun is_audio :: "'a event \<Rightarrow> bool" where
  "is_audio (AudioBlock indata frames status) = True"
| "is_audio e = False"

text \<open>
  A run in which \<open>toggle_playback\<close> is only ever called in a state that is not recording.
\<close>

fun pause_outside_recording :: "'a::{zero,plus} event list \<Rightarrow> 'a looper \<Rightarrow> bool" where
  "pause_outside_recording [] s = True"
| "pause_outside_recording (e # es) s =
     ((case e of TogglePlayback \<Rightarrow> \<not> is_recording s | _ \<Rightarrow> True)
      \<and> pause_outside_recording es (step e s))"

section \<open>Properties\<close>

subsection \<open>Queues and slices\<close>

lemma drain_eq: "drain q frames = ([], frames @ q)"
  by (induction q arbitrary: frames) simp_all

lemma discard_all_eq: "discard_all q = []"
  by (induction q) simp_all

lemma queue_put_eq: "queue_put q x = Some (q @ [x])"
  by (simp add: queue_put_def queue_full_def queue_maxsize_def)

lemma monitor_put_eq: "monitor_put out block s = (Inr out, s\<lparr>monitor_queue := monitor_queue s @ [block]\<rparr>)"
  by (simp add: monitor_put_def queue_put_eq)

subsection \<open>The branches of the callback\<close>

lemma report_status_fields [simp]:
  "loop_buffer (report_status st s) = loop_buffer s"
  "record_queue (report_status st s) = record_queue s"
  "monitor_queue (report_status st s) = monitor_queue s"
  "is_recording (report_status st s) = is_recording s"
  "is_playing (report_status st s) = is_playing s"
  "monitor_enabled (report_status st s) = monitor_enabled s"
  "playback_index (report_status st s) = playback_index s"
  "indicator (report_status st s) = indicator s"
  "timers (report_status st s) = timers s"
  by (simp_all add: report_status_def py_print_def)

lemma audio_callback_passthrough:
  assumes "\<not> is_recording s" "\<not> (is_playing s \<and> loop_buffer s \<noteq> [])" "length indata = frames"
  shows "audio_callback indata frames status s =
     (Inr indata, (report_status status s)\<lparr>monitor_queue :=
        (if monitor_enabled s then monitor_queue s @ [indata] else monitor_queue s)\<rparr>)"
  using assms
  by (auto simp add: audio_callback_def Let_def np_size_def CHANNELS_def np_assign_def monitor_put_eq)

lemma length_py_slice: "length (py_slice a i j) = min j (length a) - i"
  by (simp add: py_slice_def)

lemma length_wrap_read:
  "c < length buf \<Longrightarrow> c + n \<le> 2 * length buf \<Longrightarrow> length (wrap_read buf c n) = n"
  by (auto simp add: wrap_read_def length_py_slice)

lemma nth_py_slice: "i + k < j \<Longrightarrow> j \<le> length a \<Longrightarrow> py_slice a i j ! k = a ! (i + k)"
  by (simp add: py_slice_def)

lemma wrap_read_circular:
  assumes "c < length buf" "c + n \<le> 2 * length buf"
  shows "wrap_read buf c n = map (\<lambda>i. buf ! ((c + i) mod length buf)) [0..<n]"
proof (rule nth_equalityI)
  show "length (wrap_read buf c n) = length (map (\<lambda>i. buf ! ((c + i) mod length buf)) [0..<n])"
    using assms by (simp add: length_wrap_read)
next
  fix i assume "i < length (wrap_read buf c n)"
  then have i: "i < n" using assms by (simp add: length_wrap_read)
  let ?L = "length buf"
  show "wrap_read buf c n ! i = map (\<lambda>i. buf ! ((c + i) mod ?L)) [0..<n] ! i"
  proof (cases "c + n \<le> ?L")
    case True
    then show ?thesis using i by (simp add: wrap_read_def nth_py_slice)
  next
    case False
    show ?thesis
    proof (cases "i < ?L - c")
      case True
      then have "wrap_read buf c n ! i = buf ! (c + i)"
        using False by (simp add: wrap_read_def nth_append length_py_slice nth_py_slice)
      then show ?thesis using True i by simp
    next
      case ge: False
      have "?L \<le> c + i" "c + i - ?L < ?L"
        using ge assms i by simp_all
      then have "(c + i) mod ?L = c + i - ?L"
        by (simp add: le_mod_geq)
      then have m: "(c + i) mod ?L = i - (?L - c)"
        using assms by simp
      have "wrap_read buf c n ! i = py_slice buf 0 (c + n - ?L) ! (i - (?L - c))"
        using False ge assms by (simp add: wrap_read_def nth_append length_py_slice)
      also have "\<dots> = buf ! (i - (?L - c))"
        using nth_py_slice[of 0 "i - (?L - c)" "c + n - ?L" buf] ge assms i False by simp
      finally show ?thesis using m i by simp
    qed
  qed
qed

lemma audio_callback_playing:
  assumes "\<not> is_recording s" "is_playing s" "playback_index s < length (loop_buffer s)"
    "length indata = frames" "playback_index s + frames \<le> 2 * length (loop_buffer s)"
  shows "audio_callback indata frames status s =
     (Inr (wrap_read (loop_buffer s) (playback_index s) frames),
      (report_status status s)\<lparr>playback_index := (playback_index s + frames) mod length (loop_buffer s),
         monitor_queue := (if monitor_enabled s
           then monitor_queue s @ [map2 (+) (wrap_read (loop_buffer s) (playback_index s) frames) indata]
           else monitor_queue s)\<rparr>)"
proof -
  have ne: "loop_buffer s \<noteq> []"
    using assms(3) by auto
  have l: "length (wrap_read (loop_buffer s) (playback_index s) frames) = frames"
    using assms by (simp add: length_wrap_read)
  show ?thesis
    unfolding audio_callback_def Let_def wrap_read_def[symmetric]
    using assms l ne
    by (simp add: np_size_def CHANNELS_def py_mod_def np_assign_def np_add_def monitor_put_eq)
qed

lemma wrap_read_spec:
  assumes "c < length buf"
  shows "wrap_read buf c n =
     (if c + n \<le> length buf then py_slice buf c (c + n)
      else py_slice buf c (length buf) @ py_slice buf 0 (n - (length buf - c)))"
proof -
  have "c + n - length buf = n - (length buf - c)"
    using assms by arith
  then show ?thesis
    by (simp only: wrap_read_def)
qed

subsection \<open>The control operations as record updates\<close>

lemma toggle_playback_eq:
  "toggle_playback s = s\<lparr>is_playing := \<not> is_playing s,
       console := console s @ [if is_playing s then PlaybackPaused else PlaybackResumed]\<rparr>"
  by (simp add: toggle_playback_def Let_def py_print_def)

lemma toggle_monitor_eq:
  "toggle_monitor s = s\<lparr>monitor_enabled := \<not> monitor_enabled s,
       console := console s @ [if monitor_enabled s then MonitorOff else MonitorOn]\<rparr>"
  by (simp add: toggle_monitor_def Let_def py_print_def)

lemma reset_loop_eq:
  "reset_loop s = s\<lparr>loop_buffer := [], is_recording := False, record_queue := [],
     is_playing := False, playback_index := 0, indicator := Grey,
     console := console s @ [LoopReset]\<rparr>"
  by (simp add: reset_loop_def Let_def py_print_def update_indicator_def discard_all_eq)

lemma toggle_record_start:
  "\<not> is_recording s \<Longrightarrow> toggle_record s =
     s\<lparr>is_recording := True, is_playing := False, indicator := Red,
       console := console s @ [RecordingStarted]\<rparr>"
  by (simp add: toggle_record_def py_print_def update_indicator_def)

lemma toggle_record_stop_data:
  "is_recording s \<Longrightarrow> record_queue s \<noteq> [] \<Longrightarrow> toggle_record s =
     s\<lparr>is_recording := False, record_queue := [], loop_buffer := concat (record_queue s),
       playback_index := 0, is_playing := True,
       console := console s @ [RecordingStopped (length (concat (record_queue s)))],
       indicator := Grey\<rparr>"
  by (simp add: toggle_record_def Let_def py_print_def update_indicator_def drain_eq)

lemma toggle_record_stop_empty:
  "is_recording s \<Longrightarrow> record_queue s = [] \<Longrightarrow> toggle_record s =
     s\<lparr>is_recording := False, record_queue := [],
       console := console s @ [NoDataRecorded], indicator := Grey\<rparr>"
  by (simp add: toggle_record_def Let_def py_print_def update_indicator_def)

lemma record_for_duration_start:
  "\<not> float_overflows ms \<Longrightarrow> \<not> is_recording s \<Longrightarrow> record_for_duration (Some ms) s =
     Inr (s\<lparr>record_queue := [], playback_index := 0, is_recording := True, is_playing := False,
       indicator := Red, console := console s @ [TimedStarted ms], timers := timers s @ [ms]\<rparr>)"
  by (simp add: record_for_duration_def Let_def py_print_def update_indicator_def discard_all_eq)

lemma record_for_duration_busy:
  "\<not> float_overflows ms \<Longrightarrow> is_recording s \<Longrightarrow> record_for_duration (Some ms) s =
     Inr (s\<lparr>console := console s @ [TimedAlreadyRecording]\<rparr>)"
  by (simp add: record_for_duration_def py_print_def)

lemma record_for_duration_invalid:
  "record_for_duration None s = Inr (s\<lparr>console := console s @ [TimedInvalidDuration]\<rparr>)"
  by (simp add: record_for_duration_def py_print_def)

lemma record_for_duration_overflow:
  "float_overflows ms \<Longrightarrow> record_for_duration (Some ms) s = Inl OverflowError"
  by (simp add: record_for_duration_def)

lemma float_overflows_small: "\<bar>n\<bar> \<le> 2 ^ 64 \<Longrightarrow> \<not> float_overflows n"
  by (simp add: float_overflows_def)

lemma toggle_record_not_both:
  "\<not> (is_recording s \<and> is_playing s) \<Longrightarrow>
     \<not> (is_recording (toggle_record s) \<and> is_playing (toggle_record s))"
  by (cases "is_recording s"; cases "record_queue s = []")
     (simp_all add: toggle_record_start toggle_record_stop_data toggle_record_stop_empty)

subsection \<open>What the callback leaves alone\<close>

lemma audio_callback_flags:
  "is_recording (snd (audio_callback indata frames status s)) = is_recording s"
  "is_playing (snd (audio_callback indata frames status s)) = is_playing s"
  "monitor_enabled (snd (audio_callback indata frames status s)) = monitor_enabled s"
  "loop_buffer (snd (audio_callback indata frames status s)) = loop_buffer s"
  "timers (snd (audio_callback indata frames status s)) = timers s"
  by (simp_all add: audio_callback_def Let_def monitor_put_eq queue_put_eq py_mod_def
      split: sum.splits)

lemma audio_callback_cursor:
  "is_recording s \<or> \<not> is_playing s \<Longrightarrow>
     playback_index (snd (audio_callback indata frames status s)) = playback_index s"
  by (auto simp add: audio_callback_def Let_def monitor_put_eq queue_put_eq
      split: sum.splits)

lemma audio_callback_never_blocks:
  "fst (audio_callback indata frames status s) \<noteq> Inl WouldBlock"
  by (auto simp add: audio_callback_def Let_def monitor_put_eq queue_put_eq py_mod_def
      np_assign_def np_add_def split: sum.splits)

lemma fst_audio_callback_cong:
  assumes "loop_buffer s' = loop_buffer s" "playback_index s' = playback_index s"
    "is_recording s' = is_recording s" "is_playing s' = is_playing s"
    "monitor_enabled s' = monitor_enabled s"
  shows "fst (audio_callback indata frames status s') = fst (audio_callback indata frames status s)"
  using assms
  by (simp add: audio_callback_def Let_def monitor_put_eq queue_put_eq split: sum.splits)

subsection \<open>Runs\<close>

lemma run_audio_paused:
  assumes "\<not> is_recording s" "\<not> is_playing s" "list_all is_audio es"
  shows "loop_buffer (run es s) = loop_buffer s \<and> playback_index (run es s) = playback_index s
     \<and> is_recording (run es s) = is_recording s \<and> is_playing (run es s) = is_playing s
     \<and> monitor_enabled (run es s) = monitor_enabled s"
  using assms
proof (induction es arbitrary: s)
  case Nil
  then show ?case by simp
next
  case (Cons e es)
  then obtain indata frames status where e: "e = AudioBlock indata frames status"
    by (cases e) simp_all
  let ?s = "snd (audio_callback indata frames status s)"
  have "\<not> is_recording ?s" "\<not> is_playing ?s"
    using Cons.prems by (simp_all add: audio_callback_flags)
  then have "loop_buffer (run es ?s) = loop_buffer ?s \<and> playback_index (run es ?s) = playback_index ?s
     \<and> is_recording (run es ?s) = is_recording ?s \<and> is_playing (run es ?s) = is_playing ?s
     \<and> monitor_enabled (run es ?s) = monitor_enabled ?s"
    using Cons.IH Cons.prems by simp
  then show ?case
    using Cons.prems by (simp add: e audio_callback_flags audio_callback_cursor)
qed

lemma run_monitored_blocks:
  assumes "monitor_enabled s" "\<not> is_recording s" "\<not> is_playing s"
  shows "monitor_queue (run (replicate n (AudioBlock [0] (Suc 0) [])) s) = monitor_queue s @ replicate n [0]"
  using assms
proof (induction n arbitrary: s)
  case 0
  then show ?case by simp
next
  case (Suc n)
  let ?s = "snd (audio_callback [0] (Suc 0) [] s)"
  have q: "monitor_queue ?s = monitor_queue s @ [[0]]"
    using Suc.prems by (simp add: audio_callback_passthrough)
  have "monitor_queue (run (replicate n (AudioBlock [0] (Suc 0) [])) ?s) = monitor_queue ?s @ replicate n [0]"
    using Suc.prems by (intro Suc.IH) (simp_all add: audio_callback_flags)
  then show ?case
    by (simp add: q replicate_app_Cons_same)
qed

lemma step_not_both:
  assumes "\<not> (is_recording s \<and> is_playing s)"
    "(case e of TogglePlayback \<Rightarrow> \<not> is_recording s | _ \<Rightarrow> True)"
  shows "\<not> (is_recording (step e s) \<and> is_playing (step e s))"
proof (cases e)
  case ToggleRecord
  then show ?thesis using assms(1) toggle_record_not_both[of s] by simp
next
  case ResetLoop
  then show ?thesis by (simp add: reset_loop_eq)
next
  case TogglePlayback
  then show ?thesis using assms by (simp add: toggle_playback_eq)
next
  case ToggleMonitor
  then show ?thesis using assms by (simp add: toggle_monitor_eq)
next
  case (RecordForDuration d)
  show ?thesis
  proof (cases d)
    case None
    then show ?thesis
      using assms RecordForDuration by (simp add: record_for_duration_invalid)
  next
    case (Some ms)
    then show ?thesis
      using assms RecordForDuration
      by (cases "float_overflows ms"; cases "is_recording s")
         (simp_all add: record_for_duration_overflow record_for_duration_busy
            record_for_duration_start)
  qed
next
  case (TimerFires k)
  show ?thesis
  proof (cases "k < length (timers s)")
    case True
    then show ?thesis
      using assms(1) TimerFires
        toggle_record_not_both[of "s\<lparr>timers := take k (timers s) @ drop (Suc k) (timers s)\<rparr>"]
      by (simp add: timer_fires_def)
  next
    case False
    then show ?thesis using assms(1) TimerFires by (simp add: timer_fires_def)
  qed
next
  case (AudioBlock indata frames status)
  then show ?thesis using assms(1) by (simp add: audio_callback_flags)
qed

lemma run_not_both:
  assumes "\<not> (is_recording s \<and> is_playing s)" "pause_outside_recording es s"
  shows "\<not> (is_recording (run es s) \<and> is_playing (run es s))"
  using assms
proof (induction es arbitrary: s)
  case Nil
  then show ?case by simp
next
  case (Cons e es)
  have "\<not> (is_recording (step e s) \<and> is_playing (step e s))"
    using Cons.prems step_not_both[of s e] by simp
  then show ?case
    using Cons.IH[of "step e s"] Cons.prems by simp
qed

lemma audio_callback_beyond_second_pass:
  assumes "\<not> is_recording s" "is_playing s" "playback_index s < length (loop_buffer s)"
    "2 * length (loop_buffer s) < playback_index s + frames"
  shows "fst (audio_callback indata frames status s) = Inl ValueError"
proof -
  have ne: "loop_buffer s \<noteq> []"
    using assms(3) by auto
  have l: "length (wrap_read (loop_buffer s) (playback_index s) frames)
      = 2 * length (loop_buffer s) - playback_index s"
    using assms by (simp add: wrap_read_def length_py_slice)
  then have "length (wrap_read (loop_buffer s) (playback_index s) frames) \<noteq> frames"
    "length (wrap_read (loop_buffer s) (playback_index s) frames) \<noteq> 1"
    using assms by simp_all
  then show ?thesis
    unfolding audio_callback_def Let_def wrap_read_def[symmetric]
    using assms ne
    by (simp add: np_size_def CHANNELS_def py_mod_def np_assign_def)
qed

section \<open>The claims\<close>

subsection \<open>C1: the wraparound read of the playback branch\<close>

text \<open>
  C1, as stated for every block size, fails: a block longer than what is left of the loop
  plus one more whole pass makes the second slice \<open>loop_buffer[0:end-length]\<close> shorter than
  asked (slices are clamped), the chunk has fewer rows than \<open>outdata\<close>, and
  \<open>outdata[:] = chunk\<close> raises ValueError. With a loop of one frame, the cursor at 0 and a
  block of three frames the chunk has two rows.
\<close>

theorem playback_block_beyond_second_pass_counterexample:
  "fst (audio_callback [0, 0, 0] 3 [] (initial\<lparr>loop_buffer := [5::int], is_playing := True\<rparr>))
     = Inl ValueError
   \<and> wrap_read [5::int] 0 3 = [5, 5]"
  by (simp add: audio_callback_def initial_def report_status_def np_size_def CHANNELS_def
      py_slice_def py_mod_def np_assign_def wrap_read_def)

text \<open>
  C1, amended: for a loop buffer of length \<open>L > 0\<close>, a cursor \<open>C\<close> in \<open>[0, L)\<close> and a block of
  \<open>N\<close> frames with \<open>C + N \<le> 2 * L\<close>, the playback branch (playing, not recording) outputs the
  slice \<open>[C, C+N)\<close> when \<open>C + N \<le> L\<close> and otherwise the slice \<open>[C, L)\<close> followed by the slice
  \<open>[0, N-(L-C))\<close>; that is, frame \<open>i\<close> of the output is frame \<open>(C + i) mod L\<close> of the loop; and
  the cursor afterwards is \<open>(C + N) mod L\<close>.
\<close>

theorem playback_reads_circularly:
  assumes "\<not> is_recording s" and "is_playing s"
    and "playback_index s < length (loop_buffer s)"
    and "length indata = frames"
    and "playback_index s + frames \<le> 2 * length (loop_buffer s)"
  shows "fst (audio_callback indata frames status s) =
       Inr (if playback_index s + frames \<le> length (loop_buffer s)
            then py_slice (loop_buffer s) (playback_index s) (playback_index s + frames)
            else py_slice (loop_buffer s) (playback_index s) (length (loop_buffer s))
                 @ py_slice (loop_buffer s) 0
                     (frames - (length (loop_buffer s) - playback_index s)))
     \<and> fst (audio_callback indata frames status s) =
       Inr (map (\<lambda>i. loop_buffer s ! ((playback_index s + i) mod length (loop_buffer s)))
              [0..<frames])
     \<and> playback_index (snd (audio_callback indata frames status s)) =
       (playback_index s + frames) mod length (loop_buffer s)"
proof -
  have r: "fst (audio_callback indata frames status s) =
      Inr (wrap_read (loop_buffer s) (playback_index s) frames)"
    and c: "playback_index (snd (audio_callback indata frames status s)) =
      (playback_index s + frames) mod length (loop_buffer s)"
    using assms by (simp_all add: audio_callback_playing)
  show ?thesis
    using r c wrap_read_spec[OF assms(3), of frames] wrap_read_circular[OF assms(3) assms(5)]
    by (simp only: simp_thms)
qed

text \<open>The scenario of the specification: \<open>L = 768\<close>, \<open>C = 700\<close>, \<open>N = 256\<close>.\<close>

theorem playback_reads_circularly_witness:
  "fst (audio_callback (replicate 256 0) 256 []
        (initial\<lparr>loop_buffer := map int [0..<768], is_playing := True, playback_index := 700\<rparr>))
     = Inr (map int ([700..<768] @ [0..<188]))
   \<and> playback_index (snd (audio_callback (replicate 256 0) 256 []
        (initial\<lparr>loop_buffer := map int [0..<768], is_playing := True, playback_index := 700\<rparr>)))
     = 188"
  using playback_reads_circularly [of
      "initial\<lparr>loop_buffer := map int [0..<768], is_playing := True, playback_index := 700\<rparr>"
      "replicate 256 0" 256 "[]"]
  by (simp add: initial_def py_slice_def take_map drop_map)

text \<open>
  Past that bound the branch always ends by the ValueError
  (\<open>audio_callback_beyond_second_pass\<close>), so the bound of the amended claim is exact.
\<close>

subsection \<open>C2: stopping a recording\<close>

text \<open>
  C2, as stated for every recording state, fails in its second half: \<open>toggle_playback\<close>
  has no check of \<open>is_recording\<close>, so a recording state can have \<open>is_playing\<close> set, and a
  stop with an empty capture queue leaves that flag as it is. After record, pause, record
  with nothing captured, the state is not recording and playing.
\<close>

theorem stop_record_keeps_playing_flag_counterexample:
  "is_recording (run [ToggleRecord, TogglePlayback] (initial :: int looper))
   \<and> record_queue (run [ToggleRecord, TogglePlayback] (initial :: int looper)) = []
   \<and> last (console (toggle_record (run [ToggleRecord, TogglePlayback] (initial :: int looper))))
       = NoDataRecorded
   \<and> is_playing (toggle_record (run [ToggleRecord, TogglePlayback] (initial :: int looper)))"
  by (simp add: initial_def toggle_record_def toggle_playback_def py_print_def
      update_indicator_def Let_def)

text \<open>
  C2, amended: for every state with recording set, \<open>toggle_record\<close> drains the capture
  queue and clears the recording flag (the indicator turns grey). If the drained list of
  blocks is not empty, the loop buffer becomes the concatenation of the blocks in order, the
  cursor becomes 0 and playing is set. If it is empty, "no data captured" is printed and the
  loop buffer, the cursor and the playing flag are unchanged; the state is idle when playing
  was off at the stop. Nothing else changes in either case.
\<close>

theorem stop_record_materializes:
  assumes "is_recording s"
  shows "toggle_record s =
     (if record_queue s \<noteq> [] then
        s\<lparr>is_recording := False, record_queue := [],
          loop_buffer := concat (record_queue s), playback_index := 0, is_playing := True,
          console := console s @ [RecordingStopped (length (concat (record_queue s)))],
          indicator := Grey\<rparr>
      else
        s\<lparr>is_recording := False, record_queue := [],
          console := console s @ [NoDataRecorded], indicator := Grey\<rparr>)"
  using assms by (simp add: toggle_record_stop_data toggle_record_stop_empty)

text \<open>
  Record, two blocks captured by the callback, stop: the loop is the two blocks in order.
\<close>

theorem stop_record_materializes_witness:
  "is_recording (run [ToggleRecord, AudioBlock [1, 2] 2 [], AudioBlock [3] 1 []] (initial :: int looper))
   \<and> loop_buffer (toggle_record
        (run [ToggleRecord, AudioBlock [1, 2] 2 [], AudioBlock [3] 1 []] (initial :: int looper)))
       = [1, 2, 3]
   \<and> playback_index (toggle_record
        (run [ToggleRecord, AudioBlock [1, 2] 2 [], AudioBlock [3] 1 []] (initial :: int looper)))
       = 0
   \<and> is_playing (toggle_record
        (run [ToggleRecord, AudioBlock [1, 2] 2 [], AudioBlock [3] 1 []] (initial :: int looper)))
   \<and> \<not> is_recording (toggle_record
        (run [ToggleRecord, AudioBlock [1, 2] 2 [], AudioBlock [3] 1 []] (initial :: int looper)))"
proof -
  let ?s = "run [ToggleRecord, AudioBlock [1, 2] 2 [], AudioBlock [3] 1 []] (initial :: int looper)"
  have r: "is_recording ?s" and q: "record_queue ?s = [[1, 2], [3]]"
    by (simp_all add: initial_def toggle_record_def audio_callback_def report_status_def
        queue_put_eq py_print_def update_indicator_def)
  show ?thesis
    using stop_record_materializes [OF r] r q by simp
qed

subsection \<open>C3: an empty loop while playing\<close>

text \<open>
  C3: with an empty loop buffer, playing set and recording off, the callback called with a
  block of \<open>frames\<close> rows returns with \<open>outdata\<close> equal to the input: no fault (no ValueError,
  no ZeroDivisionError from the cursor's modulo, no wait); the cursor and the buffer are as
  before; and the input block is appended to the monitor queue exactly when monitoring is
  enabled. The only other change is the driver status, printed when there is one.
\<close>

theorem empty_loop_passes_input_through:
  assumes "loop_buffer s = []" and "is_playing s" and "\<not> is_recording s"
    and "length indata = frames"
  shows "fst (audio_callback indata frames status s) = Inr indata
     \<and> snd (audio_callback indata frames status s) =
         (report_status status s)\<lparr>monitor_queue :=
            (if monitor_enabled s then monitor_queue s @ [indata] else monitor_queue s)\<rparr>
     \<and> playback_index (snd (audio_callback indata frames status s)) = playback_index s
     \<and> loop_buffer (snd (audio_callback indata frames status s)) = []"
  using assms by (simp add: audio_callback_passthrough)

text \<open>
  A block of three frames, monitoring enabled.
\<close>

theorem empty_loop_passes_input_through_witness:
  "fst (audio_callback [4, 5, 6] 3 []
      ((initial :: int looper)\<lparr>is_playing := True, monitor_enabled := True\<rparr>)) = Inr [4, 5, 6]
   \<and> monitor_queue (snd (audio_callback [4, 5, 6] 3 []
      ((initial :: int looper)\<lparr>is_playing := True, monitor_enabled := True\<rparr>))) = [[4, 5, 6]]
   \<and> playback_index (snd (audio_callback [4, 5, 6] 3 []
      ((initial :: int looper)\<lparr>is_playing := True, monitor_enabled := True\<rparr>))) = 0"
  using empty_loop_passes_input_through [of
      "(initial :: int looper)\<lparr>is_playing := True, monitor_enabled := True\<rparr>" "[4, 5, 6]" 3 "[]"]
  by (simp add: initial_def)

subsection \<open>C4: the timer of a timed recording after a manual stop\<close>

text \<open>
  C4 does not hold of the code. The timer started by \<open>record_for_duration\<close> calls
  \<open>toggle_record\<close>, which starts a recording when none is running. Timed record of 500 ms,
  one block captured, a manual stop (the loop has one frame and plays, the timer is still
  pending), then the timer fires: the engine is recording again, "recording started" is
  printed after "recording stopped", and no timer is left to stop it.
\<close>

theorem timer_after_manual_stop_starts_recording:
  "\<not> is_recording (run [RecordForDuration (Some 500), AudioBlock [7] 1 [], ToggleRecord]
        (initial :: int looper))
   \<and> timers (run [RecordForDuration (Some 500), AudioBlock [7] 1 [], ToggleRecord]
        (initial :: int looper)) = [500]
   \<and> is_recording (run [RecordForDuration (Some 500), AudioBlock [7] 1 [], ToggleRecord,
        TimerFires 0] (initial :: int looper))
   \<and> console (run [RecordForDuration (Some 500), AudioBlock [7] 1 [], ToggleRecord,
        TimerFires 0] (initial :: int looper))
       = [TimedStarted 500, RecordingStopped 1, RecordingStarted]
   \<and> timers (run [RecordForDuration (Some 500), AudioBlock [7] 1 [], ToggleRecord,
        TimerFires 0] (initial :: int looper)) = []"
  by (simp add: initial_def record_for_duration_def float_overflows_def toggle_record_def
      timer_fires_def audio_callback_def report_status_def queue_put_eq py_print_def
      update_indicator_def Let_def)

subsection \<open>C5: recording and playing together\<close>

text \<open>
  C5, as stated, fails: \<open>toggle_playback\<close> during a recording sets \<open>is_playing\<close> while
  \<open>is_recording\<close> is set.
\<close>

theorem pause_while_recording_sets_both_flags_counterexample:
  "is_recording (run [ToggleRecord, TogglePlayback] (initial :: int looper))
   \<and> is_playing (run [ToggleRecord, TogglePlayback] (initial :: int looper))"
  by (simp add: initial_def toggle_record_def toggle_playback_def py_print_def
      update_indicator_def Let_def)

text \<open>
  C5, amended: in every state reached from the initial state by a sequence of
  \<open>toggle_record\<close>, \<open>reset_loop\<close>, \<open>toggle_monitor\<close>, \<open>record_for_duration\<close>, timer firings,
  audio callbacks, and \<open>toggle_playback\<close> called only in states that are not recording, the
  flags recording and playing are not both set.
\<close>

theorem never_recording_and_playing:
  assumes "pause_outside_recording es initial"
  shows "\<not> (is_recording (run es initial) \<and> is_playing (run es initial))"
  using assms run_not_both [of initial es] by (simp add: initial_def)

text \<open>
  A run through every kind of event, with both pauses outside a recording.
\<close>

theorem never_recording_and_playing_witness:
  "pause_outside_recording
     [ToggleRecord, AudioBlock [1] 1 [], ToggleRecord, TogglePlayback, ToggleMonitor,
      RecordForDuration (Some 130), TimerFires 0, TogglePlayback, ResetLoop]
     (initial :: int looper)
   \<and> \<not> (is_recording (run
       [ToggleRecord, AudioBlock [1] 1 [], ToggleRecord, TogglePlayback, ToggleMonitor,
        RecordForDuration (Some 130), TimerFires 0, TogglePlayback, ResetLoop]
       (initial :: int looper))
     \<and> is_playing (run
       [ToggleRecord, AudioBlock [1] 1 [], ToggleRecord, TogglePlayback, ToggleMonitor,
        RecordForDuration (Some 130), TimerFires 0, TogglePlayback, ResetLoop]
       (initial :: int looper)))"
proof -
  let ?es = "[ToggleRecord, AudioBlock [1] 1 [], ToggleRecord, TogglePlayback, ToggleMonitor,
      RecordForDuration (Some 130), TimerFires 0, TogglePlayback, ResetLoop] :: int event list"
  have p: "pause_outside_recording ?es initial"
    by (simp add: initial_def toggle_record_def toggle_playback_def toggle_monitor_def
        record_for_duration_def float_overflows_def timer_fires_def audio_callback_def
        report_status_def
        queue_put_eq drain_eq discard_all_eq py_print_def update_indicator_def Let_def)
  show ?thesis
    using never_recording_and_playing [OF p] p by simp
qed

subsection \<open>C6: toggle\_playback while recording\<close>

text \<open>
  C6, as stated, fails in its first half: called during a recording, \<open>toggle_playback\<close>
  sets the playing flag and prints "playback resumed".
\<close>

theorem pause_while_recording_flips_playing_counterexample:
  "is_recording (toggle_record (initial :: int looper))
   \<and> \<not> is_playing (toggle_record (initial :: int looper))
   \<and> is_playing (toggle_playback (toggle_record (initial :: int looper)))
   \<and> last (console (toggle_playback (toggle_record (initial :: int looper)))) = PlaybackResumed"
  by (simp add: initial_def toggle_record_def toggle_playback_def py_print_def
      update_indicator_def Let_def)

text \<open>
  C6, amended: in every state, recording or not, \<open>toggle_playback\<close> flips the playing flag
  and prints the new playback status; nothing else changes. In particular it flips the flag
  in every state that is not recording.
\<close>

theorem toggle_playback_always_flips:
  "is_playing (toggle_playback s) = (\<not> is_playing s)
   \<and> toggle_playback s =
       s\<lparr>is_playing := \<not> is_playing s,
         console := console s @ [if is_playing s then PlaybackPaused else PlaybackResumed]\<rparr>"
  by (simp add: toggle_playback_eq)

text \<open>
  One state that is recording, one that is playing.
\<close>

theorem toggle_playback_always_flips_witness:
  "is_playing (toggle_playback ((initial :: int looper)\<lparr>is_recording := True\<rparr>))
   \<and> \<not> is_playing (toggle_playback ((initial :: int looper)\<lparr>is_playing := True\<rparr>))"
  using toggle_playback_always_flips [of "(initial :: int looper)\<lparr>is_recording := True\<rparr>"]
    toggle_playback_always_flips [of "(initial :: int looper)\<lparr>is_playing := True\<rparr>"]
  by (simp add: initial_def)

subsection \<open>C7: a second start while recording\<close>

text \<open>
  C7, as stated of \<open>toggle_record\<close>, fails: called while recording, \<open>toggle_record\<close> is the
  stop. It empties the capture queue into the loop buffer and clears the recording flag.
\<close>

theorem record_entry_point_while_recording_stops_counterexample:
  "is_recording (run [ToggleRecord, AudioBlock [1] 1 []] (initial :: int looper))
   \<and> record_queue (run [ToggleRecord, AudioBlock [1] 1 []] (initial :: int looper)) = [[1]]
   \<and> \<not> is_recording (toggle_record (run [ToggleRecord, AudioBlock [1] 1 []] (initial :: int looper)))
   \<and> record_queue (toggle_record (run [ToggleRecord, AudioBlock [1] 1 []] (initial :: int looper))) = []
   \<and> loop_buffer (toggle_record (run [ToggleRecord, AudioBlock [1] 1 []] (initial :: int looper))) = [1]
   \<and> last (console (toggle_record (run [ToggleRecord, AudioBlock [1] 1 []] (initial :: int looper))))
       = RecordingStopped 1"
  by (simp add: initial_def toggle_record_def audio_callback_def report_status_def
      queue_put_eq py_print_def update_indicator_def Let_def)

text \<open>
  C7, amended: for every state with recording set, a start requested through
  \<open>record_for_duration\<close> with a valid duration that converts to a float (every integer
  below \<open>2^1024 - 2^970\<close> in magnitude) only prints "already recording": the capture queue,
  the recording flag, the loop buffer, the cursor and the pending timers are unchanged.
  \<open>toggle_record\<close> in such a state is the stop: it clears the recording flag and empties
  the capture queue.
\<close>

theorem timed_record_while_recording_is_noop:
  assumes "is_recording s" and "\<not> float_overflows ms"
  shows "record_for_duration (Some ms) s =
       Inr (s\<lparr>console := console s @ [TimedAlreadyRecording]\<rparr>)
     \<and> step (RecordForDuration (Some ms)) s = s\<lparr>console := console s @ [TimedAlreadyRecording]\<rparr>
     \<and> \<not> is_recording (toggle_record s) \<and> record_queue (toggle_record s) = []"
  using assms
  by (cases "record_queue s = []")
     (simp_all add: record_for_duration_busy toggle_record_stop_data toggle_record_stop_empty)

text \<open>A recording with one block captured, then a timed record of 130 ms.\<close>

theorem timed_record_while_recording_is_noop_witness:
  "is_recording (run [ToggleRecord, AudioBlock [1] 1 []] (initial :: int looper))
   \<and> \<not> float_overflows 130
   \<and> record_queue (step (RecordForDuration (Some 130))
        (run [ToggleRecord, AudioBlock [1] 1 []] (initial :: int looper))) = [[1]]
   \<and> is_recording (step (RecordForDuration (Some 130))
        (run [ToggleRecord, AudioBlock [1] 1 []] (initial :: int looper)))
   \<and> timers (step (RecordForDuration (Some 130))
        (run [ToggleRecord, AudioBlock [1] 1 []] (initial :: int looper))) = []
   \<and> last (console (step (RecordForDuration (Some 130))
        (run [ToggleRecord, AudioBlock [1] 1 []] (initial :: int looper)))) = TimedAlreadyRecording"
proof -
  let ?s = "run [ToggleRecord, AudioBlock [1] 1 []] (initial :: int looper)"
  have r: "is_recording ?s" and q: "record_queue ?s = [[1]]" and t: "timers ?s = []"
    by (simp_all add: initial_def toggle_record_def audio_callback_def report_status_def
        queue_put_eq py_print_def update_indicator_def)
  have f: "\<not> float_overflows 130"
    by (simp add: float_overflows_def)
  have "step (RecordForDuration (Some 130)) ?s = ?s\<lparr>console := console ?s @ [TimedAlreadyRecording]\<rparr>"
    using timed_record_while_recording_is_noop [OF r f] by blast
  then show ?thesis
    using r q t f by (simp del: step.simps run.simps)
qed

text \<open>
  From \<open>2^1024 - 2^970\<close> on the call ends by the OverflowError before it looks at the
  recording flag (\<open>record_for_duration_overflow\<close>).
\<close>

subsection \<open>C8: reset\<close>

text \<open>
  C8: whatever the state, after \<open>reset_loop\<close> the loop buffer is empty (length 0), the
  capture queue is empty, the cursor is 0, and recording and playing are off.
\<close>

theorem reset_is_absorbing:
  "loop_buffer (reset_loop s) = [] \<and> length (loop_buffer (reset_loop s)) = 0
   \<and> record_queue (reset_loop s) = []
   \<and> playback_index (reset_loop s) = 0
   \<and> is_recording (reset_loop s) = False
   \<and> is_playing (reset_loop s) = False"
  by (simp add: reset_loop_eq)

text \<open>
  A state with every flag set, a loop, a cursor and captured blocks.
\<close>

theorem reset_is_absorbing_witness:
  "loop_buffer (reset_loop \<lparr>loop_buffer = [1, 2, 3 :: int], record_queue = [[4], [5]],
       monitor_queue = [], is_recording = True, is_playing = True, monitor_enabled = True,
       playback_index = 2, indicator = Red, console = [], timers = [130]\<rparr>) = []
   \<and> record_queue (reset_loop \<lparr>loop_buffer = [1, 2, 3 :: int], record_queue = [[4], [5]],
       monitor_queue = [], is_recording = True, is_playing = True, monitor_enabled = True,
       playback_index = 2, indicator = Red, console = [], timers = [130]\<rparr>) = []
   \<and> playback_index (reset_loop \<lparr>loop_buffer = [1, 2, 3 :: int], record_queue = [[4], [5]],
       monitor_queue = [], is_recording = True, is_playing = True, monitor_enabled = True,
       playback_index = 2, indicator = Red, console = [], timers = [130]\<rparr>) = 0"
  using reset_is_absorbing [of "\<lparr>loop_buffer = [1, 2, 3 :: int], record_queue = [[4], [5]],
       monitor_queue = [], is_recording = True, is_playing = True, monitor_enabled = True,
       playback_index = 2, indicator = Red, console = [], timers = [130]\<rparr>"]
  by simp

subsection \<open>C9: the monitor queue\<close>

text \<open>
  C9, as stated, fails: \<open>monitor_queue\<close> is a \<open>queue.Queue()\<close> without a maximum size, so
  it is never full and nothing is dropped. With monitoring enabled, \<open>n\<close> callbacks with no
  consumer in between leave \<open>n\<close> blocks in the queue: no bound holds for every \<open>n\<close>.
\<close>

theorem monitor_sink_grows_without_bound_counterexample:
  "\<not> (\<exists>B. \<forall>n. length (monitor_queue
        (run (ToggleMonitor # replicate n (AudioBlock [0] (Suc 0) [])) (initial :: int looper)))
      \<le> B)"
proof
  assume "\<exists>B. \<forall>n. length (monitor_queue
        (run (ToggleMonitor # replicate n (AudioBlock [0] (Suc 0) [])) (initial :: int looper)))
      \<le> B"
  then obtain B where b: "\<forall>n. length (monitor_queue
        (run (ToggleMonitor # replicate n (AudioBlock [0] (Suc 0) [])) (initial :: int looper)))
      \<le> B"
    by blast
  let ?s = "toggle_monitor (initial :: int looper)"
  have "monitor_queue (run (replicate (Suc B) (AudioBlock [0] (Suc 0) [])) ?s)
      = monitor_queue ?s @ replicate (Suc B) [0]"
    by (intro run_monitored_blocks) (simp_all add: toggle_monitor_eq initial_def)
  then have "length (monitor_queue
        (run (ToggleMonitor # replicate (Suc B) (AudioBlock [0] (Suc 0) [])) (initial :: int looper)))
      = Suc B"
    by (simp add: toggle_monitor_eq initial_def)
  then show False
    using b by (metis Suc_n_not_le_n)
qed

text \<open>
  C9, amended: the monitor queue is an unbounded FIFO. It is never full; a push appends
  its block at the tail, raises nothing and changes nothing but the queue; the callback
  never waits on it; and every callback that returns with monitoring enabled and recording
  off has appended exactly one block, whatever the occupancy, with the blocks already
  queued left in place.
\<close>

theorem monitor_push_appends:
  "\<not> queue_full (monitor_queue s)
   \<and> monitor_put written block s =
       (Inr written, s\<lparr>monitor_queue := monitor_queue s @ [block]\<rparr>)
   \<and> fst (audio_callback indata frames status s) \<noteq> Inl WouldBlock
   \<and> (monitor_enabled s \<and> \<not> is_recording s
        \<and> fst (audio_callback indata frames status s) = Inr out
      \<longrightarrow> length (monitor_queue (snd (audio_callback indata frames status s)))
            = Suc (length (monitor_queue s))
          \<and> butlast (monitor_queue (snd (audio_callback indata frames status s)))
            = monitor_queue s)"
proof -
  have "monitor_enabled s \<and> \<not> is_recording s
        \<and> fst (audio_callback indata frames status s) = Inr out
      \<longrightarrow> length (monitor_queue (snd (audio_callback indata frames status s)))
            = Suc (length (monitor_queue s))
          \<and> butlast (monitor_queue (snd (audio_callback indata frames status s)))
            = monitor_queue s"
    by (auto simp add: audio_callback_def Let_def monitor_put_eq split: sum.splits)
  then show ?thesis
    by (simp add: audio_callback_never_blocks monitor_put_eq queue_full_def queue_maxsize_def)
qed

text \<open>
  A push onto a queue that already holds a thousand blocks.
\<close>

theorem monitor_push_appends_witness:
  "fst (audio_callback [7, 8] 2 []
      ((initial :: int looper)\<lparr>monitor_enabled := True, monitor_queue := replicate 1000 [0, 0]\<rparr>))
     = Inr [7, 8]
   \<and> length (monitor_queue (snd (audio_callback [7, 8] 2 []
      ((initial :: int looper)\<lparr>monitor_enabled := True, monitor_queue := replicate 1000 [0, 0]\<rparr>))))
     = 1001
   \<and> butlast (monitor_queue (snd (audio_callback [7, 8] 2 []
      ((initial :: int looper)\<lparr>monitor_enabled := True, monitor_queue := replicate 1000 [0, 0]\<rparr>))))
     = replicate 1000 [0, 0]"
proof -
  let ?s = "(initial :: int looper)\<lparr>monitor_enabled := True, monitor_queue := replicate 1000 [0, 0]\<rparr>"
  have o: "fst (audio_callback [7, 8] 2 [] ?s) = Inr [7, 8]"
    by (simp add: audio_callback_passthrough initial_def)
  show ?thesis
    using monitor_push_appends [of ?s "[7, 8]" "[7, 8]" "[7, 8]" 2 "[]" "[7, 8]"] o
    by (simp add: initial_def)
qed

subsection \<open>C10: what toggle\_playback and toggle\_monitor change\<close>

text \<open>
  C10: \<open>toggle_playback\<close> changes its flag and the console only, and so does
  \<open>toggle_monitor\<close>: the loop buffer, the cursor, the recording flag, the queues and the other
  flag are as before. So when a playing state is paused, any number of audio callbacks run,
  and playback is resumed, the engine plays again with the same loop and the cursor where
  it was paused, and the next block emitted is the one that would have been emitted then.
\<close>

theorem pause_and_resume_keep_the_cursor:
  "toggle_playback s =
       s\<lparr>is_playing := \<not> is_playing s,
         console := console s @ [if is_playing s then PlaybackPaused else PlaybackResumed]\<rparr>
   \<and> toggle_monitor s =
       s\<lparr>monitor_enabled := \<not> monitor_enabled s,
         console := console s @ [if monitor_enabled s then MonitorOff else MonitorOn]\<rparr>
   \<and> (\<not> is_recording s \<and> is_playing s \<and> list_all is_audio es \<longrightarrow>
        is_playing (toggle_playback (run es (toggle_playback s)))
      \<and> playback_index (toggle_playback (run es (toggle_playback s))) = playback_index s
      \<and> loop_buffer (toggle_playback (run es (toggle_playback s))) = loop_buffer s
      \<and> fst (audio_callback indata frames status (toggle_playback (run es (toggle_playback s))))
          = fst (audio_callback indata frames status s))"
proof -
  have "is_playing (toggle_playback (run es (toggle_playback s)))
      \<and> playback_index (toggle_playback (run es (toggle_playback s))) = playback_index s
      \<and> loop_buffer (toggle_playback (run es (toggle_playback s))) = loop_buffer s
      \<and> fst (audio_callback indata frames status (toggle_playback (run es (toggle_playback s))))
          = fst (audio_callback indata frames status s)"
    if a: "\<not> is_recording s" "is_playing s" "list_all is_audio es"
  proof -
    let ?p = "toggle_playback s"
    have p: "\<not> is_recording ?p" "\<not> is_playing ?p" "loop_buffer ?p = loop_buffer s"
      "playback_index ?p = playback_index s" "monitor_enabled ?p = monitor_enabled s"
      using a by (simp_all add: toggle_playback_eq)
    have r: "loop_buffer (run es ?p) = loop_buffer ?p \<and> playback_index (run es ?p) = playback_index ?p
       \<and> is_recording (run es ?p) = is_recording ?p \<and> is_playing (run es ?p) = is_playing ?p
       \<and> monitor_enabled (run es ?p) = monitor_enabled ?p"
      using run_audio_paused [OF p(1) p(2) a(3)] .
    let ?q = "toggle_playback (run es ?p)"
    have q: "loop_buffer ?q = loop_buffer s" "playback_index ?q = playback_index s"
      "is_recording ?q = is_recording s" "is_playing ?q = is_playing s"
      "monitor_enabled ?q = monitor_enabled s"
      using r p a by (simp_all add: toggle_playback_eq [of "run es ?p"])
    show ?thesis
      using q a fst_audio_callback_cong [OF q] by simp
  qed
  then show ?thesis
    by (simp add: toggle_playback_eq [of s] toggle_monitor_eq)
qed

text \<open>
  A loop of three frames paused at cursor 1, two blocks passed through, then resumed.
\<close>

theorem pause_and_resume_keep_the_cursor_witness:
  "playback_index (toggle_playback (run [AudioBlock [9, 9] 2 [], AudioBlock [9, 9] 2 []]
      (toggle_playback ((initial :: int looper)\<lparr>loop_buffer := [1, 2, 3], is_playing := True,
         playback_index := 1\<rparr>)))) = 1
   \<and> fst (audio_callback [0, 0] 2 []
      (toggle_playback (run [AudioBlock [9, 9] 2 [], AudioBlock [9, 9] 2 []]
        (toggle_playback ((initial :: int looper)\<lparr>loop_buffer := [1, 2, 3], is_playing := True,
           playback_index := 1\<rparr>))))) = Inr [2, 3]"
proof -
  let ?s = "(initial :: int looper)\<lparr>loop_buffer := [1, 2, 3], is_playing := True,
         playback_index := 1\<rparr>"
  let ?es = "[AudioBlock [9, 9] 2 [], AudioBlock [9, 9] 2 []] :: int event list"
  have o: "fst (audio_callback [0, 0] 2 [] ?s) = Inr [2, 3]"
    by (simp add: audio_callback_playing wrap_read_def py_slice_def initial_def)
  have h: "\<not> is_recording ?s \<and> is_playing ?s \<and> list_all is_audio ?es"
    by (simp add: initial_def)
  have "playback_index (toggle_playback (run ?es (toggle_playback ?s))) = playback_index ?s
      \<and> fst (audio_callback [0, 0] 2 [] (toggle_playback (run ?es (toggle_playback ?s))))
          = fst (audio_callback [0, 0] 2 [] ?s)"
    using pause_and_resume_keep_the_cursor [of ?s ?es "[0, 0]" 2 "[]"] h by blast
  then show ?thesis
    using o by simp
qed

end
